theory Spec2Isabelle
  imports Main
begin

section \<open>Data model\<close>

text \<open>
  A Python \<^verbatim>\<open>str\<close> is the list of its Unicode code points, so that \<open>length\<close> is
  Python's \<^verbatim>\<open>len\<close>. An ASCII literal of the source is written with \<open>lit\<close>.
\<close>

type_synonym str = "nat list"

definition lit :: "string \<Rightarrow> str" where
  "lit s = map of_char s"

text \<open>
  A LangChain \<^verbatim>\<open>Document\<close>: the text and the metadata dictionary. The chunks the
  splitter returns are \<^verbatim>\<open>Document\<close> objects as well.
\<close>

record document =
  page_content :: str
  metadata :: "str \<rightharpoonup> str"

text \<open>
  Exceptions. The first four are the error kinds of the spec (section 7); the next four
  are the Python built-ins the statistics code can raise; \<open>Raised\<close> stands for any
  other exception of a library call whose class derives from \<^verbatim>\<open>Exception\<close>.
  The last four are the exceptions that derive from \<^verbatim>\<open>BaseException\<close> and not
  from \<^verbatim>\<open>Exception\<close>: the three built-ins and, as \<open>RaisedBase\<close>, any other.
\<close>

datatype error =
    InvalidConfiguration
  | ServiceError
  | NotFound
  | DeserializationError
  | ZeroDivisionError
  | ValueError
  | IndexError
  | KeyError str
  | Raised string
  | SystemExit
  | KeyboardInterrupt
  | GeneratorExit
  | RaisedBase string

text \<open>
  What a clause \<^verbatim>\<open>except Exception\<close> catches: the exceptions whose class derives
  from \<^verbatim>\<open>Exception\<close>. It lets the others pass.
\<close>

fun is_Exception :: "error \<Rightarrow> bool" where
  "is_Exception SystemExit = False"
| "is_Exception KeyboardInterrupt = False"
| "is_Exception GeneratorExit = False"
| "is_Exception (RaisedBase name) = False"
| "is_Exception e = True"

definition and_then :: "error + 'a \<Rightarrow> ('a \<Rightarrow> error + 'b) \<Rightarrow> error + 'b" where
  "and_then r f = (case r of Inl e \<Rightarrow> Inl e | Inr x \<Rightarrow> f x)"

section \<open>The text splitter as the code sees it\<close>

text \<open>
  The keyword arguments of \<^verbatim>\<open>CharacterTextSplitter(separator=..., chunk_size=...,
  chunk_overlap=..., length_function=len)\<close>. The code always passes \<^verbatim>\<open>len\<close>
  as the length function, so sizes are counted in characters and the argument has no
  field.
\<close>

record config =
  separator :: str
  chunk_size :: int
  chunk_overlap :: int

text \<open>
  \<^verbatim>\<open>CharacterTextSplitter\<close> belongs to the third-party package
  \<^verbatim>\<open>langchain_text_splitters\<close>; the repository holds no code of it. Both
  \<^verbatim>\<open>chunk_documents\<close> functions use exactly two operations of it, the constructor
  and \<^verbatim>\<open>split_documents\<close>; each may raise. They are the two fields of the
  parameter \<open>lib\<close> below, \<open>'sp\<close> being the type of splitter objects.
\<close>

record 'sp splitter_library =
  new_splitter :: "config \<Rightarrow> error + 'sp"
  split_documents :: "'sp \<Rightarrow> document list \<Rightarrow> error + document list"

text \<open>
  The configuration both \<^verbatim>\<open>chunk_documents\<close> functions pass (lines 21 to 26 of
  either file); the separator is the two line feeds \<^verbatim>\<open>"\n\n"\<close>.
\<close>

definition splitter_config :: config where
  "splitter_config = \<lparr>separator = [10, 10], chunk_size = 500, chunk_overlap = 50\<rparr>"

section \<open>chunk_documents\<close>

text \<open>
  \<^verbatim>\<open>src/simple-rag-agent/components/chunk.py\<close>: build the splitter, split, return the
  chunks. Console output is left out of every model of this theory: no returned value
  and no raised exception depends on it.
\<close>

definition chunk_documents_sra ::
  "'sp splitter_library \<Rightarrow> document list \<Rightarrow> error + document list" where
  "chunk_documents_sra lib documents =
     and_then (new_splitter lib splitter_config) (\<lambda>text_splitter.
     and_then (split_documents lib text_splitter documents) (\<lambda>chunks.
     Inr chunks))"

text \<open>
  The statistics of \<^verbatim>\<open>src/project-1/components/chunk.py\<close>, lines 39 to 53.
  \<^verbatim>\<open>sum(chunk_sizes) / len(chunk_sizes)\<close> is Python's true division: it raises
  \<^verbatim>\<open>ZeroDivisionError\<close> for a zero divisor. The quotient is only printed; it is
  kept as an exact fraction (numerator, denominator).
\<close>

definition true_div :: "nat \<Rightarrow> nat \<Rightarrow> error + nat \<times> nat" where
  "true_div a b = (if b = 0 then Inl ZeroDivisionError else Inr (a, b))"

text \<open>\<^verbatim>\<open>min\<close> and \<^verbatim>\<open>max\<close> of a list raise \<^verbatim>\<open>ValueError\<close> on the empty list.\<close>

definition py_min :: "nat list \<Rightarrow> error + nat" where
  "py_min xs = (case xs of [] \<Rightarrow> Inl ValueError | y # ys \<Rightarrow> Inr (fold min ys y))"

definition py_max :: "nat list \<Rightarrow> error + nat" where
  "py_max xs = (case xs of [] \<Rightarrow> Inl ValueError | y # ys \<Rightarrow> Inr (fold max ys y))"

text \<open>\<^verbatim>\<open>chunks[0]\<close> raises \<^verbatim>\<open>IndexError\<close> on the empty list.\<close>

definition first_item :: "'a list \<Rightarrow> error + 'a" where
  "first_item xs = (case xs of [] \<Rightarrow> Inl IndexError | x # _ \<Rightarrow> Inr x)"

text \<open>\<^verbatim>\<open>d[key]\<close> raises \<^verbatim>\<open>KeyError\<close> for a key the dictionary lacks.\<close>

definition getitem :: "(str \<rightharpoonup> str) \<Rightarrow> str \<Rightarrow> error + str" where
  "getitem d k = (case d k of None \<Rightarrow> Inl (KeyError k) | Some v \<Rightarrow> Inr v)"

text \<open>
  \<^verbatim>\<open>src/project-1/components/chunk.py\<close>: the same two library calls, then the
  statistics and the sample chunk, in the order of the source; the chunks are returned
  only when none of these steps raises.
\<close>

definition chunk_documents_p1 ::
  "'sp splitter_library \<Rightarrow> document list \<Rightarrow> error + document list" where
  "chunk_documents_p1 lib documents =
     and_then (new_splitter lib splitter_config) (\<lambda>text_splitter.
     and_then (split_documents lib text_splitter documents) (\<lambda>chunks.
     let chunk_sizes = map (\<lambda>chunk. length (page_content chunk)) chunks in
     and_then (true_div (sum_list chunk_sizes) (length chunk_sizes)) (\<lambda>avg_size.
     and_then (py_min chunk_sizes) (\<lambda>min_size.
     and_then (py_max chunk_sizes) (\<lambda>max_size.
     and_then (first_item chunks) (\<lambda>sample.
     and_then (getitem (metadata sample) (lit ''title'')) (\<lambda>title.
     and_then (getitem (metadata sample) (lit ''category'')) (\<lambda>category.
     Inr chunks))))))))"

section \<open>Loading the persisted index\<close>

text \<open>
  The external calls of the two loaders, as parameters: the constructor
  \<^verbatim>\<open>GoogleGenerativeAIEmbeddings(...)\<close>, \<^verbatim>\<open>os.path.exists\<close>,
  \<^verbatim>\<open>FAISS.load_local\<close>, \<^verbatim>\<open>vector_store.as_retriever(search_kwargs={"k": 3})\<close>
  and the constructor \<^verbatim>\<open>ChatGoogleGenerativeAI(...)\<close>. A call that raises gives
  \<open>Inl\<close> of the exception.
\<close>

record ('emb, 'vs, 'ret, 'llm) environment =
  new_embeddings :: "error + 'emb"
  path_exists :: "string \<Rightarrow> bool"
  load_local :: "string \<Rightarrow> 'emb \<Rightarrow> error + 'vs"
  as_retriever :: "'vs \<Rightarrow> nat \<Rightarrow> error + 'ret"
  new_llm :: "error + 'llm"

text \<open>
  \<^verbatim>\<open>load_vector_store\<close> of \<^verbatim>\<open>src/project-1/tests/test.py\<close>. The result is
  \<open>Inl e\<close> when the function raises \<open>e\<close>, \<open>Inr None\<close> when it returns
  \<^verbatim>\<open>None\<close> and \<open>Inr (Some vs)\<close> when it returns the vector store. The embeddings
  constructor runs outside the \<^verbatim>\<open>try\<close>. Of what \<^verbatim>\<open>FAISS.load_local\<close>
  raises, the clause \<^verbatim>\<open>except Exception\<close> (line 55) catches the exceptions that
  derive from \<^verbatim>\<open>Exception\<close>; any other leaves the function.
\<close>

definition load_vector_store ::
  "('emb, 'vs, 'ret, 'llm) environment \<Rightarrow> error + 'vs option" where
  "load_vector_store env =
     and_then (new_embeddings env) (\<lambda>embeddings.
     let path = ''./vector_store'' in
     if \<not> path_exists env path then Inr None
     else (case load_local env path embeddings of
             Inr vector_store \<Rightarrow> Inr (Some vector_store)
           | Inl e \<Rightarrow> if is_Exception e then Inr None else Inl e))"

text \<open>
  \<^verbatim>\<open>main\<close> of \<^verbatim>\<open>test.py\<close>: it returns at once when the loader gave
  \<^verbatim>\<open>None\<close>. Everything after that test (the mode menu and the queries) is the
  parameter \<open>rest\<close>. \<open>Inr None\<close> is the early return, \<open>Inr (Some r)\<close> a run that
  went on to \<open>rest\<close>.
\<close>

definition main_test ::
  "('emb, 'vs, 'ret, 'llm) environment \<Rightarrow> ('vs \<Rightarrow> error + 'r) \<Rightarrow> error + 'r option" where
  "main_test env rest =
     and_then (load_vector_store env) (\<lambda>vector_store.
     case vector_store of
       None \<Rightarrow> Inr None
     | Some vs \<Rightarrow> and_then (rest vs) (\<lambda>r. Inr (Some r)))"

text \<open>
  \<^verbatim>\<open>load_rag_components\<close> of \<^verbatim>\<open>src/simple-rag-agent/tests/test-2.py\<close>: it
  returns a triple (retriever, llm, vector store), and three times \<^verbatim>\<open>None\<close> when
  the path is absent or the load raises an exception that \<^verbatim>\<open>except Exception\<close>
  (line 64) catches; any other exception of the load leaves the function.
\<close>

definition load_rag_components ::
  "('emb, 'vs, 'ret, 'llm) environment \<Rightarrow> error + 'ret option \<times> 'llm option \<times> 'vs option" where
  "load_rag_components env =
     and_then (new_embeddings env) (\<lambda>embeddings.
     let path = ''../vector_store'' in
     if \<not> path_exists env path then Inr (None, None, None)
     else (case load_local env path embeddings of
             Inl e \<Rightarrow> if is_Exception e then Inr (None, None, None) else Inl e
           | Inr vector_store \<Rightarrow>
               and_then (as_retriever env vector_store 3) (\<lambda>retriever.
               and_then (new_llm env) (\<lambda>llm.
               Inr (Some retriever, Some llm, Some vector_store)))))"

text \<open>
  \<^verbatim>\<open>main\<close> of \<^verbatim>\<open>test-2.py\<close>: it returns at once when the retriever is
  \<^verbatim>\<open>None\<close>; \<open>rest\<close> is everything after that test, given the three components.
\<close>

definition main_test_2 ::
  "('emb, 'vs, 'ret, 'llm) environment \<Rightarrow>
   ('ret \<Rightarrow> 'llm option \<Rightarrow> 'vs option \<Rightarrow> error + 'r) \<Rightarrow> error + 'r option" where
  "main_test_2 env rest =
     and_then (load_rag_components env) (\<lambda>(retriever, llm, vector_store).
     case retriever of
       None \<Rightarrow> Inr None
     | Some ret \<Rightarrow> and_then (rest ret llm vector_store) (\<lambda>r. Inr (Some r)))"

section \<open>The chunker contract of the spec\<close>

text \<open>
  Modelled from the spec: the constructor and \<^verbatim>\<open>split_documents\<close> of
  \<^verbatim>\<open>CharacterTextSplitter\<close> (package \<^verbatim>\<open>langchain_text_splitters\<close>), which are
  missing from the sources. The three definitions below follow section 4.1 of the spec
  at the level of documents.

  Configuration: "fails with InvalidConfiguration when max_chunk_size \<open>\<le>\<close> 0 or overlap
  \<open>\<ge>\<close> max_chunk_size or overlap < 0"; \<open>chunk_size\<close> and \<open>chunk_overlap\<close> are the
  code's names of max_chunk_size and overlap.
\<close>

definition invalid_configuration :: "config \<Rightarrow> bool" where
  "invalid_configuration cfg =
     (chunk_size cfg \<le> 0 \<or> chunk_overlap cfg \<ge> chunk_size cfg \<or> chunk_overlap cfg < 0)"

text \<open>
  Modelled from the spec: "Chunk: {text, metadata: copy of parent Document's metadata}"
  and "Each emitted chunk inherits the metadata of its source Document unchanged". How
  the text of one document is cut into chunk texts is the parameter \<open>cutter\<close>: the
  spec's account of it (greedy accumulation of segments, overlap seed) is inferred, as
  its section 9 says, and nothing defined here depends on it.
\<close>

definition chunks_of ::
  "(config \<Rightarrow> str \<Rightarrow> str list) \<Rightarrow> config \<Rightarrow> document \<Rightarrow> document list" where
  "chunks_of cutter cfg d =
     map (\<lambda>t. \<lparr>page_content = t, metadata = metadata d\<rparr>) (cutter cfg (page_content d))"

text \<open>
  Modelled from the spec: the library with the contract of section 4.1. The constructor
  rejects an invalid configuration and otherwise yields a splitter, which is its
  configuration; \<^verbatim>\<open>split_documents\<close> has no error condition and returns the chunks
  "in source-document order, then in intra-document order".
\<close>

definition spec_splitter :: "(config \<Rightarrow> str \<Rightarrow> str list) \<Rightarrow> config splitter_library" where
  "spec_splitter cutter =
     \<lparr>new_splitter =
        (\<lambda>cfg. if invalid_configuration cfg then Inl InvalidConfiguration else Inr cfg),
      split_documents =
        (\<lambda>cfg documents. Inr (concat (map (chunks_of cutter cfg) documents)))\<rparr>"

text \<open>
  The two library calls of \<^verbatim>\<open>chunk_documents\<close> for any configuration in place of
  the constants of the code.
\<close>

definition chunk_with ::
  "'sp splitter_library \<Rightarrow> config \<Rightarrow> document list \<Rightarrow> error + document list" where
  "chunk_with lib cfg documents =
     and_then (new_splitter lib cfg) (\<lambda>text_splitter.
     split_documents lib text_splitter documents)"

text \<open>
  The source document of every chunk, in the order of the chunks: each document is
  repeated once for each chunk text cut from it.
\<close>

definition source_documents ::
  "(config \<Rightarrow> str \<Rightarrow> str list) \<Rightarrow> config \<Rightarrow> document list \<Rightarrow> document list" where
  "source_documents cutter cfg documents =
     concat (map (\<lambda>d. replicate (length (cutter cfg (page_content d))) d) documents)"

section \<open>Concrete inputs\<close>

text \<open>
  Two documents as \<^verbatim>\<open>load_documents\<close> of \<^verbatim>\<open>src/project-1/main.py\<close> builds
  them, with the three metadata keys, and a document with empty text.
\<close>

definition example_a :: document where
  "example_a =
     \<lparr>page_content = lit ''alpha'',
      metadata = [lit ''title'' \<mapsto> lit ''A'', lit ''category'' \<mapsto> lit ''basics'',
                  lit ''section'' \<mapsto> lit ''one'']\<rparr>"

definition example_b :: document where
  "example_b =
     \<lparr>page_content = lit ''beta'',
      metadata = [lit ''title'' \<mapsto> lit ''B'', lit ''category'' \<mapsto> lit ''concepts'',
                  lit ''section'' \<mapsto> lit ''two'']\<rparr>"

definition empty_document :: document where
  "empty_document = \<lparr>page_content = [], metadata = Map.empty\<rparr>"

text \<open>
  A concrete splitter library for the examples: it accepts every configuration and returns
  every document whose text is not empty as one chunk, in order.
\<close>

definition example_splitter :: "config splitter_library" where
  "example_splitter =
     \<lparr>new_splitter = (\<lambda>cfg. Inr cfg),
      split_documents =
        (\<lambda>text_splitter documents. Inr (filter (\<lambda>d. page_content d \<noteq> []) documents))\<rparr>"

text \<open>
  Two environments of the loaders: one where no vector store directory exists, one where
  the directory exists and \<^verbatim>\<open>FAISS.load_local\<close> raises on its corrupt content.
\<close>

definition absent_store :: "(unit, unit, unit, unit) environment" where
  "absent_store =
     \<lparr>new_embeddings = Inr (), path_exists = (\<lambda>path. False),
      load_local = (\<lambda>path embeddings. Inr ()),
      as_retriever = (\<lambda>vector_store k. Inr ()), new_llm = Inr ()\<rparr>"

definition corrupt_store :: "(unit, unit, unit, unit) environment" where
  "corrupt_store =
     \<lparr>new_embeddings = Inr (), path_exists = (\<lambda>path. True),
      load_local = (\<lambda>path embeddings. Inl DeserializationError),
      as_retriever = (\<lambda>vector_store k. Inr ()), new_llm = Inr ()\<rparr>"

text \<open>An environment where the load is interrupted from the keyboard.\<close>

definition interrupted_load :: "(unit, unit, unit, unit) environment" where
  "interrupted_load =
     \<lparr>new_embeddings = Inr (), path_exists = (\<lambda>path. True),
      load_local = (\<lambda>path embeddings. Inl KeyboardInterrupt),
      as_retriever = (\<lambda>vector_store k. Inr ()), new_llm = Inr ()\<rparr>"

section \<open>Properties of chunk_documents\<close>

lemma chunk_documents_sra_chunk_with:
  "chunk_documents_sra lib documents = chunk_with lib splitter_config documents"
  by (simp add: chunk_documents_sra_def chunk_with_def and_then_def split: sum.splits)

text \<open>When the project-1 function returns, it returns what the other one returns.\<close>

lemma chunk_documents_p1_returns:
  "chunk_documents_p1 lib documents = Inr chunks \<Longrightarrow>
   chunk_documents_sra lib documents = Inr chunks"
  by (auto simp: chunk_documents_p1_def chunk_documents_sra_def and_then_def Let_def
      split: sum.splits)

text \<open>
  The project-1 function returns exactly when the two library calls return at least one
  chunk and the first chunk has the metadata keys \<^verbatim>\<open>title\<close> and
  \<^verbatim>\<open>category\<close>; in particular it never returns an empty chunk sequence.
\<close>

lemma chunk_documents_p1_returns_iff:
  "chunk_documents_p1 lib documents = Inr chunks \<longleftrightarrow>
     chunk_documents_sra lib documents = Inr chunks \<and> chunks \<noteq> []
     \<and> lit ''title'' \<in> dom (metadata (hd chunks))
     \<and> lit ''category'' \<in> dom (metadata (hd chunks))"
  by (cases chunks)
    (auto simp: chunk_documents_p1_def chunk_documents_sra_def and_then_def Let_def
      true_div_def py_min_def py_max_def first_item_def getitem_def
      split: sum.splits option.splits)

text \<open>The configuration of the code is valid in the sense of the spec.\<close>

lemma valid_splitter_config: "\<not> invalid_configuration splitter_config"
  by (simp add: invalid_configuration_def splitter_config_def)

lemma chunk_with_spec:
  "chunk_with (spec_splitter cutter) cfg documents =
     (if invalid_configuration cfg then Inl InvalidConfiguration
      else Inr (concat (map (chunks_of cutter cfg) documents)))"
  by (simp add: chunk_with_def spec_splitter_def and_then_def)

lemma metadata_chunks_of:
  "map metadata (chunks_of cutter cfg d) =
   replicate (length (cutter cfg (page_content d))) (metadata d)"
  by (simp add: chunks_of_def map_replicate_const comp_def)

lemma metadata_concat_chunks:
  "map metadata (concat (map (chunks_of cutter cfg) documents)) =
   map metadata (source_documents cutter cfg documents)"
  by (induction documents) (simp_all add: source_documents_def metadata_chunks_of)

text \<open>
  Claim C2. Whenever \<^verbatim>\<open>chunk_documents\<close> (either version, over the splitter of the
  spec) returns chunks, the metadata of the chunks are, one for one and in order, the
  metadata of the documents the chunks were cut from: every chunk carries the metadata
  dictionary of its source document, equal key by key.
\<close>

theorem chunk_metadata_inherited:
  assumes "chunk_documents_sra (spec_splitter cutter) documents = Inr chunks
         \<or> chunk_documents_p1 (spec_splitter cutter) documents = Inr chunks"
  shows "map metadata chunks =
         map metadata (source_documents cutter splitter_config documents)"
proof -
  from assms have "chunk_documents_sra (spec_splitter cutter) documents = Inr chunks"
    by (auto dest: chunk_documents_p1_returns)
  then have "chunks = concat (map (chunks_of cutter splitter_config) documents)"
    by (simp add: chunk_documents_sra_chunk_with chunk_with_spec valid_splitter_config)
  then show ?thesis
    by (simp add: metadata_concat_chunks)
qed

theorem chunk_metadata_inherited_witness:
  "chunk_documents_sra (spec_splitter (\<lambda>cfg t. [t, t])) [example_a, example_b]
     = Inr [example_a, example_a, example_b, example_b]
   \<and> map metadata [example_a, example_a, example_b, example_b]
     = map metadata
         (source_documents (\<lambda>cfg t. [t, t]) splitter_config [example_a, example_b])"
proof -
  have run: "chunk_documents_sra (spec_splitter (\<lambda>cfg t. [t, t])) [example_a, example_b]
      = Inr [example_a, example_a, example_b, example_b]"
    by (simp add: chunk_documents_sra_chunk_with chunk_with_spec valid_splitter_config
        chunks_of_def example_a_def example_b_def)
  from chunk_metadata_inherited [OF disjI1, OF run] run show ?thesis
    by simp
qed

text \<open>
  Claim C5 says that chunking with a valid configuration raises no error. The
  configuration of the code is valid in the sense of the spec, and over the splitter of
  the spec (for any cutting of the texts) \<^verbatim>\<open>chunk_documents\<close> of project-1
  raises \<^verbatim>\<open>ZeroDivisionError\<close> on the empty document list, where
  \<^verbatim>\<open>chunk_documents\<close> of simple-rag-agent returns the empty list.
\<close>

theorem valid_configuration_zero_division:
  "\<not> invalid_configuration splitter_config
   \<and> chunk_documents_p1 (spec_splitter cutter) [] = Inl ZeroDivisionError
   \<and> chunk_documents_sra (spec_splitter cutter) [] = Inr []"
  by (simp add: valid_splitter_config chunk_documents_p1_def chunk_documents_sra_def
      spec_splitter_def and_then_def true_div_def)

text \<open>
  Claim C10. Whenever the splitter returns no chunk for the document list (the list
  may be non-empty), \<^verbatim>\<open>chunk_documents\<close> of project-1 does not return: the average
  \<^verbatim>\<open>sum(chunk_sizes) / len(chunk_sizes)\<close> divides by zero and raises
  \<^verbatim>\<open>ZeroDivisionError\<close>, before \<^verbatim>\<open>min\<close>, \<^verbatim>\<open>max\<close> and \<^verbatim>\<open>chunks[0]\<close> are
  reached. The function of simple-rag-agent returns the empty list there.
\<close>

theorem chunk_documents_p1_no_chunks:
  assumes "new_splitter lib splitter_config = Inr sp"
    and "split_documents lib sp documents = Inr []"
  shows "chunk_documents_p1 lib documents = Inl ZeroDivisionError
       \<and> chunk_documents_sra lib documents = Inr []"
  using assms
  by (simp add: chunk_documents_p1_def chunk_documents_sra_def and_then_def true_div_def)

text \<open>
  The hypotheses hold for the list of one document with empty text over the example
  splitter, and for the empty list.
\<close>

theorem chunk_documents_p1_no_chunks_witness:
  "chunk_documents_p1 example_splitter [empty_document] = Inl ZeroDivisionError
   \<and> chunk_documents_sra example_splitter [empty_document] = Inr []
   \<and> chunk_documents_p1 example_splitter [] = Inl ZeroDivisionError"
proof -
  have new: "new_splitter example_splitter splitter_config = Inr splitter_config"
    by (simp add: example_splitter_def)
  have none: "split_documents example_splitter splitter_config [empty_document] = Inr []"
    by (simp add: example_splitter_def empty_document_def)
  have none': "split_documents example_splitter splitter_config [] = Inr []"
    by (simp add: example_splitter_def)
  from chunk_documents_p1_no_chunks [OF new none] chunk_documents_p1_no_chunks [OF new none']
  show ?thesis by simp
qed

section \<open>Properties of the loaders\<close>

text \<open>
  Claim C9, as stated, fails. With no vector store directory \<^verbatim>\<open>load_vector_store\<close>
  returns \<^verbatim>\<open>None\<close>; it does not raise \<open>NotFound\<close>. With a directory whose load
  raises \<open>DeserializationError\<close> it returns \<^verbatim>\<open>None\<close> as well; the exception stops
  at the clause \<^verbatim>\<open>except Exception\<close>. The same holds for \<^verbatim>\<open>load_rag_components\<close>.
\<close>

theorem load_error_not_raised_counterexample:
  "load_vector_store absent_store = Inr None
   \<and> load_vector_store absent_store \<noteq> Inl NotFound
   \<and> load_vector_store corrupt_store = Inr None
   \<and> load_vector_store corrupt_store \<noteq> Inl DeserializationError
   \<and> load_rag_components absent_store \<noteq> Inl NotFound
   \<and> load_rag_components corrupt_store \<noteq> Inl DeserializationError"
  by (simp add: load_vector_store_def load_rag_components_def and_then_def absent_store_def
      corrupt_store_def)

text \<open>
  Claim C9, amended. Once the embeddings model is built, a loader whose path is absent,
  or whose \<^verbatim>\<open>FAISS.load_local\<close> raises an exception \<open>e\<close> that derives from
  \<^verbatim>\<open>Exception\<close>, returns \<^verbatim>\<open>None\<close> (\<^verbatim>\<open>load_rag_components\<close>: three
  times \<^verbatim>\<open>None\<close>), whatever \<open>e\<close> is; and \<^verbatim>\<open>main\<close> then returns at
  once, without running anything of what follows the load. An exception of the load
  that does not derive from \<^verbatim>\<open>Exception\<close> is not caught: the loader and
  \<^verbatim>\<open>main\<close> raise it.
\<close>

theorem load_failure_returns_None:
  assumes "new_embeddings env = Inr emb"
  shows "(\<not> path_exists env ''./vector_store''
            \<or> (\<exists>e. load_local env ''./vector_store'' emb = Inl e \<and> is_Exception e)
          \<longrightarrow> load_vector_store env = Inr None \<and> main_test env rest = Inr None)
       \<and> (path_exists env ''./vector_store''
            \<and> load_local env ''./vector_store'' emb = Inl e' \<and> \<not> is_Exception e'
          \<longrightarrow> load_vector_store env = Inl e' \<and> main_test env rest = Inl e')
       \<and> (\<not> path_exists env ''../vector_store''
            \<or> (\<exists>e. load_local env ''../vector_store'' emb = Inl e \<and> is_Exception e)
          \<longrightarrow> load_rag_components env = Inr (None, None, None)
              \<and> main_test_2 env rest2 = Inr None)
       \<and> (path_exists env ''../vector_store''
            \<and> load_local env ''../vector_store'' emb = Inl e' \<and> \<not> is_Exception e'
          \<longrightarrow> load_rag_components env = Inl e' \<and> main_test_2 env rest2 = Inl e')"
  using assms
  by (auto simp: load_vector_store_def main_test_def load_rag_components_def main_test_2_def
      and_then_def Let_def)

theorem load_failure_returns_None_witness:
  "load_vector_store absent_store = Inr None
   \<and> main_test absent_store (\<lambda>vector_store. Inr ()) = Inr None
   \<and> load_rag_components absent_store = Inr (None, None, None)
   \<and> main_test_2 absent_store (\<lambda>retriever llm vector_store. Inr ()) = Inr None
   \<and> load_vector_store corrupt_store = Inr None
   \<and> main_test corrupt_store (\<lambda>vector_store. Inr ()) = Inr None
   \<and> load_rag_components corrupt_store = Inr (None, None, None)
   \<and> main_test_2 corrupt_store (\<lambda>retriever llm vector_store. Inr ()) = Inr None
   \<and> load_vector_store interrupted_load = Inl KeyboardInterrupt
   \<and> main_test interrupted_load (\<lambda>vector_store. Inr ()) = Inl KeyboardInterrupt
   \<and> load_rag_components interrupted_load = Inl KeyboardInterrupt
   \<and> main_test_2 interrupted_load (\<lambda>retriever llm vector_store. Inr ())
       = Inl KeyboardInterrupt"
proof -
  have a: "new_embeddings absent_store = Inr ()"
    and c: "new_embeddings corrupt_store = Inr ()"
    and i: "new_embeddings interrupted_load = Inr ()"
    by (simp_all add: absent_store_def corrupt_store_def interrupted_load_def)
  have pa: "\<not> path_exists absent_store ''./vector_store''"
    and pa': "\<not> path_exists absent_store ''../vector_store''"
    by (simp_all add: absent_store_def)
  have lc: "\<exists>e. load_local corrupt_store ''./vector_store'' () = Inl e \<and> is_Exception e"
    and lc': "\<exists>e. load_local corrupt_store ''../vector_store'' () = Inl e \<and> is_Exception e"
    by (simp_all add: corrupt_store_def)
  have li: "path_exists interrupted_load ''./vector_store''
      \<and> load_local interrupted_load ''./vector_store'' () = Inl KeyboardInterrupt
      \<and> \<not> is_Exception KeyboardInterrupt"
    and li': "path_exists interrupted_load ''../vector_store''
      \<and> load_local interrupted_load ''../vector_store'' () = Inl KeyboardInterrupt
      \<and> \<not> is_Exception KeyboardInterrupt"
    by (simp_all add: interrupted_load_def)
  from load_failure_returns_None [OF a, of "\<lambda>vector_store. Inr ()" _
      "\<lambda>retriever llm vector_store. Inr ()"]
    load_failure_returns_None [OF c, of "\<lambda>vector_store. Inr ()" _
      "\<lambda>retriever llm vector_store. Inr ()"]
    load_failure_returns_None [OF i, of "\<lambda>vector_store. Inr ()" KeyboardInterrupt
      "\<lambda>retriever llm vector_store. Inr ()"] pa pa' lc lc' li li'
  show ?thesis by blast
qed

end
